theory Spec2Isabelle
  imports Complex_Main
begin

section \<open>Python values, exceptions and results\<close>

text \<open>
  The notebook \<^verbatim>\<open>FunctionCalling.ipynb\<close> is a Python script. Every call in it either
  returns a value or raises; the exceptions that occur are all subclasses of Python's
  \<^verbatim>\<open>Exception\<close>, which is what the evaluation loop catches.
\<close>

datatype exn =
    TypeError | IndexError | KeyError | ValueError
  | JSONDecodeError | OperationalError | DatabaseError | APIError

datatype 'a pyres = Returned 'a | Raised exn

text \<open>The objects \<^verbatim>\<open>json.loads\<close> builds; a dict keeps its items in insertion order.\<close>

datatype pyval =
    PNone | PBool bool | PInt int | PFloat rat | PStr string
  | PList "pyval list" | PDict "(string \<times> pyval) list"

section \<open>Result tables\<close>

text \<open>
  A cell of a frame as \<^verbatim>\<open>pandas.read_sql_query\<close> builds it from the values SQLite
  returns (NULL, integer, real, text, blob). \<open>CReal\<close> holds the value of a finite double.
  A NULL is \<^verbatim>\<open>None\<close>, except in a column whose other values are all numbers: pandas
  makes that a column of floats, in which the NULL is NaN.
\<close>

datatype cell = CNone | CInt int | CReal rat | CNaN | CText string | CBlob string

text \<open>A \<^verbatim>\<open>pandas.DataFrame\<close>: the column labels and the rows, in order.\<close>

record dataframe =
  df_columns :: "string list"
  df_rows :: "cell list list"

text \<open>
  A two-dimensional \<^verbatim>\<open>numpy.ndarray\<close>: the type of its entries, its shape (rows,
  columns) and its entries.
\<close>

datatype dtype = Int64 | Float64 | Object

record ndarray =
  nd_dtype :: dtype
  nd_shape :: "nat \<times> nat"
  nd_cells :: "cell list list"

fun is_int :: "cell \<Rightarrow> bool" where
  "is_int (CInt i) = True"
| "is_int c = False"

fun is_real :: "cell \<Rightarrow> bool" where
  "is_real (CReal r) = True"
| "is_real c = False"

fun is_float :: "cell \<Rightarrow> bool" where
  "is_float (CReal r) = True"
| "is_float CNaN = True"
| "is_float c = False"

fun is_none :: "cell \<Rightarrow> bool" where
  "is_none CNone = True"
| "is_none c = False"

fun is_bytes_or_str :: "cell \<Rightarrow> bool" where
  "is_bytes_or_str (CText s) = True"
| "is_bytes_or_str (CBlob s) = True"
| "is_bytes_or_str c = False"

fun is_object :: "cell \<Rightarrow> bool" where
  "is_object CNaN = False"
| "is_object c = True"

text \<open>
  A frame is rectangular: every row has one cell for each label (this is part of
  \<open>wf_dataframe\<close> below), and a column is read off the rows at an index below the number
  of labels.
\<close>

definition column :: "cell list list \<Rightarrow> nat \<Rightarrow> cell list" where
  "column rows j = map (\<lambda>r. r ! j) rows"

text \<open>
  The columns pandas can build from SQLite values: integers only; numbers and NULLs
  with at least one number, as floats and NaN; NULLs only; or a column with some text
  or blob in it, whose values stay as they came.
\<close>

definition wf_column :: "cell list \<Rightarrow> bool" where
  "wf_column cs =
     (list_all is_int cs
      \<or> (list_all is_float cs \<and> list_ex is_real cs)
      \<or> list_all is_none cs
      \<or> (list_ex is_bytes_or_str cs \<and> list_all is_object cs))"

definition wf_dataframe :: "dataframe \<Rightarrow> bool" where
  "wf_dataframe df =
     (0 < length (df_columns df)
      \<and> list_all (\<lambda>r. length r = length (df_columns df)) (df_rows df)
      \<and> list_all (\<lambda>j. wf_column (column (df_rows df) j)) [0..<length (df_columns df)])"

text \<open>The dtype pandas gives a column with these cells; a column without rows is of objects.\<close>

definition column_dtype :: "cell list \<Rightarrow> dtype" where
  "column_dtype cs =
     (if cs = [] then Object
      else if list_all is_int cs then Int64
      else if list_all is_float cs then Float64
      else Object)"

fun is_numeric :: "dtype \<Rightarrow> bool" where
  "is_numeric Object = False"
| "is_numeric t = True"

text \<open>The common dtype of the columns, which is the dtype of \<^verbatim>\<open>df.to_numpy()\<close>.\<close>

definition frame_dtype :: "dataframe \<Rightarrow> dtype" where
  "frame_dtype df =
     (let dtypes = map (\<lambda>j. column_dtype (column (df_rows df) j))
                       [0..<length (df_columns df)]
      in if list_all (\<lambda>t. t = Int64) dtypes then Int64
         else if list_all is_numeric dtypes then Float64
         else Object)"

text \<open>
  The conversion of a 64-bit integer to a double: exact below \<open>2 ^ 53\<close>, otherwise
  rounded to 53 significant bits, a tie going to the even neighbour.
\<close>

fun bit_length :: "nat \<Rightarrow> nat" where
  "bit_length n = (if n = 0 then 0 else Suc (bit_length (n div 2)))"

declare bit_length.simps [simp del]

definition float64_of_int :: "int \<Rightarrow> rat" where
  "float64_of_int i =
     (let a = nat \<bar>i\<bar>;
          e = bit_length a - 53;
          q = a div 2 ^ e;
          r = a mod 2 ^ e;
          q' = (if 2 ^ e < 2 * r \<or> (2 * r = 2 ^ e \<and> odd q) then q + 1 else q)
      in of_int (sgn i * int (q' * 2 ^ e)))"

fun as_float :: "cell \<Rightarrow> cell" where
  "as_float (CInt i) = CReal (float64_of_int i)"
| "as_float c = c"

text \<open>
  \<^verbatim>\<open>df.to_numpy()\<close> drops the labels. The values are brought to the common dtype of the
  columns: in a frame of integer and float columns the integers become doubles.
\<close>

definition to_numpy :: "dataframe \<Rightarrow> ndarray" where
  "to_numpy df =
     \<lparr>nd_dtype = frame_dtype df,
      nd_shape = (length (df_rows df), length (df_columns df)),
      nd_cells = (if frame_dtype df = Float64 then map (map as_float) (df_rows df)
                  else df_rows df)\<rparr>"

text \<open>
  \<^verbatim>\<open>==\<close> on two entries of the same dtype, or of which one is a Python object: NaN is
  equal to nothing, not even to itself; an integer and a float are equal when they are
  the same number; \<^verbatim>\<open>None\<close> is equal to \<^verbatim>\<open>None\<close>.
\<close>

definition cell_eq :: "cell \<Rightarrow> cell \<Rightarrow> bool" where
  "cell_eq a b =
     (case a of
        CNaN \<Rightarrow> False
      | CInt i \<Rightarrow> (case b of CNaN \<Rightarrow> False | CReal r \<Rightarrow> of_int i = r | _ \<Rightarrow> a = b)
      | CReal r \<Rightarrow> (case b of CNaN \<Rightarrow> False | CInt i \<Rightarrow> r = of_int i | _ \<Rightarrow> a = b)
      | _ \<Rightarrow> (case b of CNaN \<Rightarrow> False | _ \<Rightarrow> a = b))"

text \<open>
  When an array of 64-bit integers meets an array of doubles, numpy converts the
  integers to doubles before it compares.
\<close>

definition promote :: "ndarray \<Rightarrow> dtype \<Rightarrow> ndarray" where
  "promote a other =
     (if nd_dtype a = Int64 \<and> other = Float64
      then a\<lparr>nd_dtype := Float64, nd_cells := map (map as_float) (nd_cells a)\<rparr>
      else a)"

text \<open>Broadcasting of one dimension: equal lengths, or one of them is 1.\<close>

definition broadcast_dim :: "nat \<Rightarrow> nat \<Rightarrow> nat option" where
  "broadcast_dim m n =
     (if m = n then Some m else if m = 1 then Some n else if n = 1 then Some m else None)"

definition bidx :: "nat \<Rightarrow> nat \<Rightarrow> nat" where
  "bidx n i = (if n = 1 then 0 else i)"

definition entry :: "ndarray \<Rightarrow> nat \<Rightarrow> nat \<Rightarrow> cell" where
  "entry a i j =
     nd_cells a ! bidx (fst (nd_shape a)) i ! bidx (snd (nd_shape a)) j"

text \<open>
  \<^verbatim>\<open>(a == b).all()\<close>: the two arrays are brought to a common dtype, broadcast against
  each other and compared entry by entry; shapes that do not broadcast make the
  expression raise (a ValueError from \<^verbatim>\<open>==\<close> in current versions of numpy; in older
  ones \<^verbatim>\<open>==\<close> gives a plain \<^verbatim>\<open>False\<close>, on which \<^verbatim>\<open>.all()\<close> raises).
\<close>

definition eq_all :: "ndarray \<Rightarrow> ndarray \<Rightarrow> bool pyres" where
  "eq_all a b =
     (case broadcast_dim (fst (nd_shape a)) (fst (nd_shape b)) of
        None \<Rightarrow> Raised ValueError
      | Some r \<Rightarrow>
          (case broadcast_dim (snd (nd_shape a)) (snd (nd_shape b)) of
             None \<Rightarrow> Raised ValueError
           | Some c \<Rightarrow>
               Returned
                 (list_all
                    (\<lambda>i. list_all
                            (\<lambda>j. cell_eq (entry (promote a (nd_dtype b)) i j)
                                          (entry (promote b (nd_dtype a)) i j))
                            [0..<c])
                    [0..<r])))"

section \<open>The world outside the notebook\<close>

text \<open>
  A chat message as the notebook builds it: a dict with role and content, the
  assistant's response object appended as it came, or the dict carrying a tool result.
\<close>

record tool_call =
  call_id :: string
  function_name :: string
  function_arguments :: string

record response_message =
  content :: "string option"
  tool_calls :: "tool_call list option"

datatype message =
    RoleContent string string
  | Assistant response_message
  | ToolResult string string string string

record tool_descriptor =
  tool_name :: string
  tool_description :: string
  tool_properties :: "(string \<times> string \<times> string) list"
  tool_required :: "string list"

record request =
  req_model :: string
  req_temperature :: rat
  req_tools :: "tool_descriptor list"
  req_messages :: "message list"

type_synonym schema = "(string \<times> string list) list"

text \<open>
  What the notebook calls and does not define. The remote endpoint answers the n-th
  request of a session with \<open>endpoint n\<close>: nothing is assumed about how its answers
  depend on the requests. The database engine is seen through the three statements
  the notebook runs on it.
\<close>

record 'db externals =
  endpoint :: "nat \<Rightarrow> response_message pyres"
  json_loads :: "string \<Rightarrow> pyval pyres"
  sqlite3_connect :: "'db \<Rightarrow> exn option"
  select_tables :: "'db \<Rightarrow> string list pyres"
  table_info :: "'db \<Rightarrow> string \<Rightarrow> string list pyres"
  read_sql_query :: "'db \<Rightarrow> pyval \<Rightarrow> dataframe pyres \<times> 'db"
  str_schema :: "schema \<Rightarrow> string"

text \<open>
  The state a run can change: the database file, the connections opened and not closed,
  and the requests sent to the endpoint so far.
\<close>

record 'db world =
  db :: 'db
  next_conn :: nat
  open_conns :: "nat list"
  requests :: "request list"

section \<open>The two database functions\<close>

text \<open>\<^verbatim>\<open>schema[table_name] = ...\<close> on a dict: an existing key keeps its place.\<close>

fun dict_set :: "string \<Rightarrow> 'v \<Rightarrow> (string \<times> 'v) list \<Rightarrow> (string \<times> 'v) list" where
  "dict_set k v [] = [(k, v)]"
| "dict_set k v ((k', v') # kvs) =
     (if k' = k then (k, v) # kvs else (k', v') # dict_set k v kvs)"

definition connect :: "'db world \<Rightarrow> nat \<times> 'db world" where
  "connect w =
     (next_conn w,
      w\<lparr>next_conn := Suc (next_conn w), open_conns := open_conns w @ [next_conn w]\<rparr>)"

definition close :: "nat \<Rightarrow> 'db world \<Rightarrow> 'db world" where
  "close conn w = w\<lparr>open_conns := removeAll conn (open_conns w)\<rparr>"

text \<open>The loop of \<^verbatim>\<open>get_schema\<close> over the table names.\<close>

fun get_schema_tables ::
  "'db externals \<Rightarrow> 'db \<Rightarrow> string list \<Rightarrow> schema \<Rightarrow> schema pyres" where
  "get_schema_tables X d [] schema = Returned schema"
| "get_schema_tables X d (table_name # tables) schema =
     (case table_info X d table_name of
        Raised e \<Rightarrow> Raised e
      | Returned columns \<Rightarrow>
          get_schema_tables X d tables (dict_set table_name columns schema))"

text \<open>
  \<^verbatim>\<open>get_schema\<close> connects, lists the tables, reads the columns of each, and returns.
  There is no \<^verbatim>\<open>conn.close()\<close> in it.
\<close>

definition get_schema :: "'db externals \<Rightarrow> 'db world \<Rightarrow> schema pyres \<times> 'db world" where
  "get_schema X w =
     (case sqlite3_connect X (db w) of
        Some e \<Rightarrow> (Raised e, w)
      | None \<Rightarrow>
          (case connect w of
             (conn, w1) \<Rightarrow>
               (case select_tables X (db w1) of
                  Raised e \<Rightarrow> (Raised e, w1)
                | Returned tables \<Rightarrow> (get_schema_tables X (db w1) tables [], w1))))"

text \<open>
  \<^verbatim>\<open>read_data\<close> connects, runs the query, closes the connection and returns the
  frame. When the query raises, the close is not reached.
\<close>

definition read_data ::
  "'db externals \<Rightarrow> pyval \<Rightarrow> 'db world \<Rightarrow> dataframe pyres \<times> 'db world" where
  "read_data X query w =
     (case sqlite3_connect X (db w) of
        Some e \<Rightarrow> (Raised e, w)
      | None \<Rightarrow>
          (case connect w of
             (conn, w1) \<Rightarrow>
               (case read_sql_query X (db w1) query of
                  (Raised e, d) \<Rightarrow> (Raised e, w1\<lparr>db := d\<rparr>)
                | (Returned df, d) \<Rightarrow> (Returned df, close conn (w1\<lparr>db := d\<rparr>)))))"

section \<open>Tool descriptors and prompts\<close>

definition get_schema_tool :: tool_descriptor where
  "get_schema_tool =
     \<lparr>tool_name = ''get_schema'',
      tool_description = ''Get the schema of the SQLite database'',
      tool_properties = [],
      tool_required = []\<rparr>"

definition read_data_tool :: tool_descriptor where
  "read_data_tool =
     \<lparr>tool_name = ''read_data'',
      tool_description = ''Get pandas dataframe from SQLite database given a query'',
      tool_properties = [(''query'', ''string'', ''SQL query to execute'')],
      tool_required = [''query'']\<rparr>"

text \<open>The list \<^verbatim>\<open>functions\<close> of \<^verbatim>\<open>get_result_v1\<close> and of \<^verbatim>\<open>get_result_v2\<close>.\<close>

definition functions_v1 :: "tool_descriptor list" where
  "functions_v1 = [read_data_tool]"

definition functions_v2 :: "tool_descriptor list" where
  "functions_v2 = [get_schema_tool, read_data_tool]"

text \<open>
  \<^verbatim>\<open>SYSTEM_PROMPT_v1\<close> is a module-level f-string: \<^verbatim>\<open>get_schema()\<close> is called once,
  when the cell that defines the constant runs, and the text of that schema is part of
  the constant from then on. It is also the default value of the parameter
  \<^verbatim>\<open>system_prompt\<close> of \<^verbatim>\<open>get_result_v1\<close>, bound when the function is defined.
\<close>

definition SYSTEM_PROMPT_v1 :: "'db externals \<Rightarrow> 'db world \<Rightarrow> string pyres \<times> 'db world" where
  "SYSTEM_PROMPT_v1 X w =
     (case get_schema X w of
        (Raised e, w1) \<Rightarrow> (Raised e, w1)
      | (Returned schema, w1) \<Rightarrow>
          (Returned
             (''\<newline>            The user will ask a question about the database with the following schema:\<newline>            ###\<newline>            ''
              @ str_schema X schema
              @ ''\<newline>            ###\<newline>            Provide a SQL query answering the question.  \<newline>            Avoid ambiguous column names.\<newline>            ''),
           w1))"

definition SYSTEM_PROMPT_v2 :: string where
  "SYSTEM_PROMPT_v2 =
     ''\<newline>        The user will ask a question about the database. \<newline>        First, get the schema of the database. \<newline>        Then, provide a SQL query answering the question.       \<newline>        Avoid ambiguous column names.\<newline>        ''"

section \<open>The two orchestrators\<close>

text \<open>
  \<^verbatim>\<open>openai.chat.completions.create\<close> with the model and temperature the notebook
  passes; the request is recorded, the answer is the endpoint's: the message of the
  first choice of the response, which is all the notebook reads of it.
\<close>

definition chat_completions_create ::
  "'db externals \<Rightarrow> tool_descriptor list \<Rightarrow> message list \<Rightarrow> 'db world
     \<Rightarrow> response_message pyres \<times> 'db world" where
  "chat_completions_create X tools messages w =
     (endpoint X (length (requests w)),
      w\<lparr>requests := requests w @
           [\<lparr>req_model = ''gpt-3.5-turbo-0125'', req_temperature = 0,
             req_tools = tools, req_messages = messages\<rparr>]\<rparr>)"

text \<open>
  \<^verbatim>\<open>response_message.tool_calls[0]\<close>: the attribute is \<^verbatim>\<open>None\<close> when the model asked
  for no tool, and subscripting \<^verbatim>\<open>None\<close> or an empty list raises.
\<close>

definition first_tool_call :: "response_message \<Rightarrow> tool_call pyres" where
  "first_tool_call response_message =
     (case tool_calls response_message of
        None \<Rightarrow> Raised TypeError
      | Some [] \<Rightarrow> Raised IndexError
      | Some (tool_call # _) \<Rightarrow> Returned tool_call)"

text \<open>\<^verbatim>\<open>args['query']\<close> on what \<^verbatim>\<open>json.loads\<close> returned.\<close>

definition subscript_query :: "pyval \<Rightarrow> pyval pyres" where
  "subscript_query args =
     (case args of
        PDict items \<Rightarrow>
          (case map_of items ''query'' of None \<Rightarrow> Raised KeyError | Some v \<Rightarrow> Returned v)
      | _ \<Rightarrow> Raised TypeError)"

text \<open>
  The three lines under \<^verbatim>\<open>if function_name == "read_data":\<close>, the same in both
  orchestrators: parse the arguments, run the query, return the pair.
\<close>

definition call_read_data ::
  "'db externals \<Rightarrow> tool_call \<Rightarrow> 'db world
     \<Rightarrow> (pyval \<times> dataframe) option pyres \<times> 'db world" where
  "call_read_data X tool_call w =
     (case json_loads X (function_arguments tool_call) of
        Raised e \<Rightarrow> (Raised e, w)
      | Returned args \<Rightarrow>
          (case subscript_query args of
             Raised e \<Rightarrow> (Raised e, w)
           | Returned sql_query \<Rightarrow>
               (case read_data X sql_query w of
                  (Raised e, w1) \<Rightarrow> (Raised e, w1)
                | (Returned df, w1) \<Rightarrow> (Returned (Some (sql_query, df)), w1))))"

text \<open>
  \<^verbatim>\<open>get_result_v1\<close>. A Python function that reaches its end without a
  \<^verbatim>\<open>return\<close> returns \<^verbatim>\<open>None\<close>: that is \<open>Returned None\<close>.
\<close>

definition get_result_v1 ::
  "'db externals \<Rightarrow> string \<Rightarrow> string \<Rightarrow> 'db world
     \<Rightarrow> (pyval \<times> dataframe) option pyres \<times> 'db world" where
  "get_result_v1 X user_question system_prompt w =
     (case chat_completions_create X functions_v1
             [RoleContent ''system'' system_prompt, RoleContent ''user'' user_question] w of
        (Raised e, w1) \<Rightarrow> (Raised e, w1)
      | (Returned response_message, w1) \<Rightarrow>
          (case first_tool_call response_message of
             Raised e \<Rightarrow> (Raised e, w1)
           | Returned tool_call \<Rightarrow>
               if function_name tool_call = ''read_data''
               then call_read_data X tool_call w1
               else (Returned None, w1)))"

text \<open>The part of \<^verbatim>\<open>get_result_v2\<close> under \<^verbatim>\<open>if function_name == "get_schema":\<close>.\<close>

definition get_result_v2_second ::
  "'db externals \<Rightarrow> message list \<Rightarrow> tool_call \<Rightarrow> 'db world
     \<Rightarrow> (pyval \<times> dataframe) option pyres \<times> 'db world" where
  "get_result_v2_second X messages tool_call w =
     (case get_schema X w of
        (Raised e, w1) \<Rightarrow> (Raised e, w1)
      | (Returned schema, w1) \<Rightarrow>
          (case chat_completions_create X functions_v2
                  (messages @
                     [ToolResult (call_id tool_call) ''tool'' (function_name tool_call)
                        (str_schema X schema)]) w1 of
             (Raised e, w2) \<Rightarrow> (Raised e, w2)
           | (Returned response_message, w2) \<Rightarrow>
               (case first_tool_call response_message of
                  Raised e \<Rightarrow> (Raised e, w2)
                | Returned tool_call2 \<Rightarrow>
                    if function_name tool_call2 = ''read_data''
                    then call_read_data X tool_call2 w2
                    else (Returned None, w2))))"

definition get_result_v2 ::
  "'db externals \<Rightarrow> string \<Rightarrow> string \<Rightarrow> 'db world
     \<Rightarrow> (pyval \<times> dataframe) option pyres \<times> 'db world" where
  "get_result_v2 X user_question system_prompt w =
     (case chat_completions_create X functions_v2
             [RoleContent ''system'' system_prompt, RoleContent ''user'' user_question] w of
        (Raised e, w1) \<Rightarrow> (Raised e, w1)
      | (Returned response_message, w1) \<Rightarrow>
          (case first_tool_call response_message of
             Raised e \<Rightarrow> (Raised e, w1)
           | Returned tool_call \<Rightarrow>
               if function_name tool_call = ''get_schema''
               then get_result_v2_second X
                      [RoleContent ''system'' system_prompt, RoleContent ''user'' user_question,
                       Assistant response_message]
                      tool_call w1
               else (Returned None, w1)))"

section \<open>The evaluation loop\<close>

text \<open>
  The body of the \<^verbatim>\<open>try\<close>: unpack what the orchestrator returned, evaluate the
  comparison, and reach \<^verbatim>\<open>n_correct += 1\<close>. The value of the comparison is not used.
  Unpacking \<^verbatim>\<open>None\<close> raises.
\<close>

definition try_body ::
  "(string \<Rightarrow> 'db world \<Rightarrow> (pyval \<times> dataframe) option pyres \<times> 'db world)
     \<Rightarrow> string \<Rightarrow> dataframe \<Rightarrow> 'db world \<Rightarrow> unit pyres \<times> 'db world" where
  "try_body get_result question df_true w =
     (case get_result question w of
        (Raised e, w1) \<Rightarrow> (Raised e, w1)
      | (Returned None, w1) \<Rightarrow> (Raised TypeError, w1)
      | (Returned (Some (_, df_llm)), w1) \<Rightarrow>
          (case eq_all (to_numpy df_true) (to_numpy df_llm) of
             Raised e \<Rightarrow> (Raised e, w1)
           | Returned _ \<Rightarrow> (Returned (), w1)))"

text \<open>
  The \<^verbatim>\<open>for\<close> loop over the rows of \<^verbatim>\<open>eval_df\<close>, each a pair of the columns Question
  and Answer. The loop reads the Question into \<^verbatim>\<open>_\<close> and passes the notebook's
  variable \<^verbatim>\<open>question\<close> to the orchestrator. \<^verbatim>\<open>read_data(query)\<close> stands before the
  \<^verbatim>\<open>try\<close>.
\<close>

fun evaluation_loop ::
  "'db externals
     \<Rightarrow> (string \<Rightarrow> 'db world \<Rightarrow> (pyval \<times> dataframe) option pyres \<times> 'db world)
     \<Rightarrow> string \<Rightarrow> (string \<times> string) list \<Rightarrow> nat \<Rightarrow> 'db world
     \<Rightarrow> nat pyres \<times> 'db world" where
  "evaluation_loop X get_result question [] n_correct w = (Returned n_correct, w)"
| "evaluation_loop X get_result question ((_, query) # eval_df) n_correct w =
     (case read_data X (PStr query) w of
        (Raised e, w1) \<Rightarrow> (Raised e, w1)
      | (Returned df_true, w1) \<Rightarrow>
          (case try_body get_result question df_true w1 of
             (Returned _, w2) \<Rightarrow>
               evaluation_loop X get_result question eval_df (n_correct + 1) w2
           | (Raised e, w2) \<Rightarrow>
               evaluation_loop X get_result question eval_df n_correct w2))"

text \<open>The evaluation cell: the loop from zero, then the two numbers it prints.\<close>

definition evaluation ::
  "'db externals
     \<Rightarrow> (string \<Rightarrow> 'db world \<Rightarrow> (pyval \<times> dataframe) option pyres \<times> 'db world)
     \<Rightarrow> string \<Rightarrow> (string \<times> string) list \<Rightarrow> 'db world
     \<Rightarrow> (nat \<times> nat) pyres \<times> 'db world" where
  "evaluation X get_result question eval_df w =
     (case evaluation_loop X get_result question eval_df 0 w of
        (Raised e, w1) \<Rightarrow> (Raised e, w1)
      | (Returned n_correct, w1) \<Rightarrow> (Returned (n_correct, length eval_df), w1))"

text \<open>
  The two evaluation cells: \<^verbatim>\<open>get_result = get_result_v1\<close> and then
  \<^verbatim>\<open>get_result = get_result_v2\<close>, each called with its default system prompt.
\<close>

definition evaluation_v1 ::
  "'db externals \<Rightarrow> string \<Rightarrow> string \<Rightarrow> (string \<times> string) list \<Rightarrow> 'db world
     \<Rightarrow> (nat \<times> nat) pyres \<times> 'db world" where
  "evaluation_v1 X system_prompt question eval_df w =
     evaluation X (\<lambda>user_question. get_result_v1 X user_question system_prompt)
       question eval_df w"

definition evaluation_v2 ::
  "'db externals \<Rightarrow> string \<Rightarrow> (string \<times> string) list \<Rightarrow> 'db world
     \<Rightarrow> (nat \<times> nat) pyres \<times> 'db world" where
  "evaluation_v2 X question eval_df w =
     evaluation X (\<lambda>user_question. get_result_v2 X user_question SYSTEM_PROMPT_v2)
       question eval_df w"

section \<open>A small database and a scripted endpoint for concrete runs\<close>

text \<open>
  For runs on concrete inputs the database is a list of tables with their columns, the
  engine answers two queries and rejects every other text (pandas reports a statement
  the engine rejects as its own \<^verbatim>\<open>DatabaseError\<close>), and the endpoint's answers are
  given one by one.
\<close>

definition query_args :: "string \<Rightarrow> string" where
  "query_args sql = ''{\"query\": \"'' @ sql @ ''\"}''"

definition demo_json_loads :: "string \<Rightarrow> pyval pyres" where
  "demo_json_loads s =
     (if s = query_args ''SELECT 1'' then Returned (PDict [(''query'', PStr ''SELECT 1'')])
      else if s = query_args ''SELECT 2'' then Returned (PDict [(''query'', PStr ''SELECT 2'')])
      else if s = ''{}'' then Returned (PDict [])
      else Raised JSONDecodeError)"

definition demo_read_sql_query :: "schema \<Rightarrow> pyval \<Rightarrow> dataframe pyres \<times> schema" where
  "demo_read_sql_query d query =
     (if query = PStr ''SELECT 1''
      then (Returned \<lparr>df_columns = [''1''], df_rows = [[CInt 1]]\<rparr>, d)
      else if query = PStr ''SELECT 2''
      then (Returned \<lparr>df_columns = [''2''], df_rows = [[CInt 2]]\<rparr>, d)
      else (Raised DatabaseError, d))"

definition demo_str_schema :: "schema \<Rightarrow> string" where
  "demo_str_schema s =
     concat (map (\<lambda>(t, cs). t @ '': '' @ concat (map (\<lambda>c. c @ '' '') cs) @ ''; '') s)"

definition demo_externals :: "(nat \<Rightarrow> response_message pyres) \<Rightarrow> schema externals" where
  "demo_externals ep =
     \<lparr>endpoint = ep,
      json_loads = demo_json_loads,
      sqlite3_connect = (\<lambda>d. None),
      select_tables = (\<lambda>d. Returned (map fst d)),
      table_info = (\<lambda>d t. Returned (case map_of d t of None \<Rightarrow> [] | Some cs \<Rightarrow> cs)),
      read_sql_query = demo_read_sql_query,
      str_schema = demo_str_schema\<rparr>"

definition demo_world :: "schema \<Rightarrow> schema world" where
  "demo_world d = \<lparr>db = d, next_conn = 0, open_conns = [], requests = []\<rparr>"

text \<open>A response that asks for one tool, and a response that only talks.\<close>

definition asks :: "string \<Rightarrow> string \<Rightarrow> response_message" where
  "asks name arguments =
     \<lparr>content = None,
      tool_calls = Some [\<lparr>call_id = ''call_1'', function_name = name,
                          function_arguments = arguments\<rparr>]\<rparr>"

definition says :: "string \<Rightarrow> response_message" where
  "says text = \<lparr>content = Some text, tool_calls = None\<rparr>"

text \<open>A response that asks for two tools at once.\<close>

definition asks_both :: "string \<Rightarrow> string \<Rightarrow> string \<Rightarrow> string \<Rightarrow> response_message" where
  "asks_both name arguments name2 arguments2 =
     \<lparr>content = None,
      tool_calls = Some [\<lparr>call_id = ''call_1'', function_name = name,
                          function_arguments = arguments\<rparr>,
                        \<lparr>call_id = ''call_2'', function_name = name2,
                          function_arguments = arguments2\<rparr>]\<rparr>"

text \<open>An endpoint that always gives the same answer, and one that follows a script.\<close>

definition always :: "response_message \<Rightarrow> nat \<Rightarrow> response_message pyres" where
  "always response_message n = Returned response_message"

definition scripted :: "response_message list \<Rightarrow> nat \<Rightarrow> response_message pyres" where
  "scripted answers n = (if n < length answers then Returned (answers ! n) else Raised APIError)"

text \<open>The request both orchestrators send first.\<close>

definition first_request :: "tool_descriptor list \<Rightarrow> string \<Rightarrow> string \<Rightarrow> request" where
  "first_request tools system_prompt user_question =
     \<lparr>req_model = ''gpt-3.5-turbo-0125'', req_temperature = 0, req_tools = tools,
      req_messages = [RoleContent ''system'' system_prompt, RoleContent ''user'' user_question]\<rparr>"

text \<open>The value of \<^verbatim>\<open>SYSTEM_PROMPT_v1\<close> when the database holds one table A with column x.\<close>

definition demo_prompt :: string where
  "demo_prompt =
     ''\<newline>            The user will ask a question about the database with the following schema:\<newline>            ###\<newline>            A: x ; \<newline>            ###\<newline>            Provide a SQL query answering the question.  \<newline>            Avoid ambiguous column names.\<newline>            ''"

text \<open>
  The frame of a query for a column of numbers in which one row holds NULL (in the
  Northwind database: \<^verbatim>\<open>SELECT ReportsTo FROM Employees\<close>), under a given label.
\<close>

definition reports_to :: "string \<Rightarrow> dataframe" where
  "reports_to label = \<lparr>df_columns = [label], df_rows = [[CReal 2], [CNaN], [CReal 2]]\<rparr>"

section \<open>Notions used to state the properties\<close>

text \<open>
  A response cut down to its first tool-invocation request, an endpoint whose answers
  are all cut down so, and what a run leaves behind apart from the text of its
  requests: the database, the connections, and how many requests were sent.
\<close>

definition first_only :: "response_message \<Rightarrow> response_message" where
  "first_only response_message =
     response_message\<lparr>tool_calls := map_option (take 1) (tool_calls response_message)\<rparr>"

definition first_only_endpoint :: "'db externals \<Rightarrow> 'db externals" where
  "first_only_endpoint X =
     X\<lparr>endpoint := (\<lambda>n. case endpoint X n of
                              Returned response_message \<Rightarrow> Returned (first_only response_message)
                            | Raised e \<Rightarrow> Raised e)\<rparr>"

definition effects :: "'db world \<Rightarrow> 'db \<times> nat \<times> nat list \<times> nat" where
  "effects w = (db w, next_conn w, open_conns w, length (requests w))"

text \<open>The second request of \<^verbatim>\<open>get_result_v2\<close>: the conversation with the schema appended.\<close>

definition second_request ::
  "string \<Rightarrow> string \<Rightarrow> response_message \<Rightarrow> tool_call \<Rightarrow> string \<Rightarrow> request" where
  "second_request system_prompt user_question response_message tool_call schema_text =
     \<lparr>req_model = ''gpt-3.5-turbo-0125'', req_temperature = 0, req_tools = functions_v2,
      req_messages =
        [RoleContent ''system'' system_prompt, RoleContent ''user'' user_question,
         Assistant response_message,
         ToolResult (call_id tool_call) ''tool'' (function_name tool_call) schema_text]\<rparr>"

section \<open>Properties\<close>

lemmas run_defs = get_result_v1_def get_result_v2_def get_result_v2_second_def
  chat_completions_create_def first_tool_call_def call_read_data_def subscript_query_def
  read_data_def get_schema_def connect_def close_def first_request_def

lemmas demo_defs = demo_externals_def demo_world_def demo_json_loads_def
  demo_read_sql_query_def demo_str_schema_def asks_def says_def query_args_def
  always_def scripted_def

lemmas table_defs = eq_all_def to_numpy_def frame_dtype_def column_dtype_def column_def
  promote_def broadcast_dim_def entry_def bidx_def cell_eq_def

lemmas eval_defs = evaluation_v1_def evaluation_v2_def evaluation_def try_body_def
  eq_all_def to_numpy_def frame_dtype_def column_dtype_def column_def promote_def
  broadcast_dim_def entry_def bidx_def cell_eq_def


subsection \<open>Runs in which the model does what the prompts ask\<close>

lemma get_result_v1_expected_run:
  "get_result_v1 (demo_externals (always (asks ''read_data'' (query_args ''SELECT 1''))))
     ''Q'' ''SP'' (demo_world [])
   = (Returned (Some (PStr ''SELECT 1'', \<lparr>df_columns = [''1''], df_rows = [[CInt 1]]\<rparr>)),
      \<lparr>db = [], next_conn = 1, open_conns = [],
       requests = [first_request functions_v1 ''SP'' ''Q'']\<rparr>)"
  by (simp add: run_defs demo_defs)

lemma get_result_v2_expected_run:
  "get_result_v2
     (demo_externals
        (scripted [asks ''get_schema'' ''{}'', asks ''read_data'' (query_args ''SELECT 1'')]))
     ''Q'' ''SP'' (demo_world [(''T'', [''a''])])
   = (Returned (Some (PStr ''SELECT 1'', \<lparr>df_columns = [''1''], df_rows = [[CInt 1]]\<rparr>)),
      \<lparr>db = [(''T'', [''a''])], next_conn = 2, open_conns = [0],
       requests =
         [first_request functions_v2 ''SP'' ''Q'',
          second_request ''SP'' ''Q'' (asks ''get_schema'' ''{}'')
            \<lparr>call_id = ''call_1'', function_name = ''get_schema'', function_arguments = ''{}''\<rparr>
            ''T: a ; '']\<rparr>)"
  by (simp add: run_defs demo_defs second_request_def)

subsection \<open>A response without a tool call\<close>

text \<open>
  Claim C8. Whenever the response to \<^verbatim>\<open>get_result_v1\<close>'s request carries no
  tool-invocation request (the attribute is \<^verbatim>\<open>None\<close>, or an empty list), the run raises
  (TypeError, or IndexError for the empty list) and returns no result; the only thing it
  has done is to send its one request.
\<close>

theorem C8_get_result_v1_no_tool_call_raises:
  assumes "endpoint X (length (requests w)) = Returned response_message"
    and "tool_calls response_message = None \<or> tool_calls response_message = Some []"
  shows "get_result_v1 X user_question system_prompt w =
           (Raised (if tool_calls response_message = None then TypeError else IndexError),
            w\<lparr>requests := requests w @ [first_request functions_v1 system_prompt user_question]\<rparr>)"
  using assms
  by (auto simp: get_result_v1_def chat_completions_create_def first_tool_call_def
        first_request_def)

theorem C8_get_result_v1_no_tool_call_raises_witness:
  "get_result_v1 (demo_externals (always (says ''Hello''))) ''Q'' ''SP'' (demo_world [])
     = (Raised TypeError,
        \<lparr>db = [], next_conn = 0, open_conns = [],
         requests = [first_request functions_v1 ''SP'' ''Q'']\<rparr>)"
  using C8_get_result_v1_no_tool_call_raises
          [of "demo_externals (always (says ''Hello''))" "demo_world []" "says ''Hello''"
              "''Q''" "''SP''"]
  by (simp add: demo_defs)

subsection \<open>What the database functions leave unchanged\<close>

lemma get_schema_world:
  "snd (get_schema X w) = w \<or>
   snd (get_schema X w) =
     w\<lparr>next_conn := Suc (next_conn w), open_conns := open_conns w @ [next_conn w]\<rparr>"
  by (simp add: get_schema_def connect_def split: option.splits pyres.splits)

lemma get_schema_requests: "requests (snd (get_schema X w)) = requests w"
  using get_schema_world [of X w] by auto

lemma get_schema_db: "db (snd (get_schema X w)) = db w"
  using get_schema_world [of X w] by auto

lemma get_schema_result_db:
  "db w' = db w \<Longrightarrow> fst (get_schema X w') = fst (get_schema X w)"
  by (simp add: get_schema_def connect_def split: option.splits pyres.splits)

lemma read_data_requests: "requests (snd (read_data X query w)) = requests w"
  by (simp add: read_data_def connect_def close_def split: option.splits pyres.splits prod.splits)

lemma call_read_data_requests:
  "requests (snd (call_read_data X tool_call w)) = requests w"
proof -
  have "requests (snd (case read_data X q w of (Raised e, w1) \<Rightarrow> (Raised e, w1)
          | (Returned df, w1) \<Rightarrow> (Returned (Some (q, df)), w1))) = requests w" for q
    using read_data_requests [of X q w]
    by (cases "read_data X q w") (auto split: pyres.splits)
  then show ?thesis
    by (simp add: call_read_data_def split: pyres.splits)
qed

subsection \<open>Dispatch on the name of the first tool call\<close>

lemma get_result_v1_not_read_data:
  assumes "endpoint X (length (requests w)) = Returned response_message"
    and "tool_calls response_message = Some (tool_call # others)"
    and "function_name tool_call \<noteq> ''read_data''"
  shows "get_result_v1 X user_question system_prompt w =
           (Returned None,
            w\<lparr>requests := requests w @ [first_request functions_v1 system_prompt user_question]\<rparr>)"
  using assms
  by (simp add: get_result_v1_def chat_completions_create_def first_tool_call_def
        first_request_def)

lemma get_result_v2_not_get_schema:
  assumes "endpoint X (length (requests w)) = Returned response_message"
    and "tool_calls response_message = Some (tool_call # others)"
    and "function_name tool_call \<noteq> ''get_schema''"
  shows "get_result_v2 X user_question system_prompt w =
           (Returned None,
            w\<lparr>requests := requests w @ [first_request functions_v2 system_prompt user_question]\<rparr>)"
  using assms
  by (simp add: get_result_v2_def chat_completions_create_def first_tool_call_def
        first_request_def)

text \<open>The run of get_result_v2 up to the second request.\<close>

lemma get_result_v2_get_schema:
  assumes r1: "endpoint X (length (requests w)) = Returned response_message"
    and tc1: "tool_calls response_message = Some (tool_call # others)"
    and n1: "function_name tool_call = ''get_schema''"
    and gs: "get_schema X
               (w\<lparr>requests := requests w @
                     [first_request functions_v2 system_prompt user_question]\<rparr>)
             = (Returned schema, w2)"
  shows "get_result_v2 X user_question system_prompt w =
           (case endpoint X (Suc (length (requests w))) of
              Raised e \<Rightarrow>
                (Raised e,
                 w2\<lparr>requests := requests w2 @
                       [second_request system_prompt user_question response_message tool_call
                          (str_schema X schema)]\<rparr>)
            | Returned response_message2 \<Rightarrow>
                (case first_tool_call response_message2 of
                   Raised e \<Rightarrow>
                     (Raised e,
                      w2\<lparr>requests := requests w2 @
                            [second_request system_prompt user_question response_message
                               tool_call (str_schema X schema)]\<rparr>)
                 | Returned tool_call2 \<Rightarrow>
                     if function_name tool_call2 = ''read_data''
                     then call_read_data X tool_call2
                            (w2\<lparr>requests := requests w2 @
                                  [second_request system_prompt user_question response_message
                                     tool_call (str_schema X schema)]\<rparr>)
                     else (Returned None,
                           w2\<lparr>requests := requests w2 @
                                 [second_request system_prompt user_question response_message
                                    tool_call (str_schema X schema)]\<rparr>)))"
proof -
  have len: "length (requests w2) = Suc (length (requests w))"
    using get_schema_requests
            [of X "w\<lparr>requests := requests w @
                        [first_request functions_v2 system_prompt user_question]\<rparr>"] gs
    by simp
  show ?thesis
    using r1 tc1 n1 gs len
    by (simp add: get_result_v2_def get_result_v2_second_def chat_completions_create_def
          first_tool_call_def first_request_def second_request_def
          split: pyres.splits)
qed


text \<open>
  Claim C6, as amended. When the first tool-invocation request at the query dispatch
  names a tool other than \<^verbatim>\<open>read_data\<close> (the only dispatch of \<^verbatim>\<open>get_result_v1\<close>; the first
  dispatch of \<^verbatim>\<open>get_result_v2\<close> when the name is not \<^verbatim>\<open>get_schema\<close> either; the second
  dispatch of \<^verbatim>\<open>get_result_v2\<close>), no pair is produced, no query is run and no further
  request is sent: the run ends there. It does not raise: it returns \<^verbatim>\<open>None\<close>.
\<close>

theorem C6_unexpected_tool_returns_None:
  "(endpoint X (length (requests w)) = Returned response_message
      \<and> tool_calls response_message = Some (tool_call # others)
      \<and> function_name tool_call \<noteq> ''read_data''
    \<longrightarrow> get_result_v1 X user_question system_prompt w =
          (Returned None,
           w\<lparr>requests := requests w @
                 [first_request functions_v1 system_prompt user_question]\<rparr>))
   \<and> (endpoint X (length (requests w)) = Returned response_message
      \<and> tool_calls response_message = Some (tool_call # others)
      \<and> function_name tool_call \<noteq> ''read_data''
      \<and> function_name tool_call \<noteq> ''get_schema''
    \<longrightarrow> get_result_v2 X user_question system_prompt w =
          (Returned None,
           w\<lparr>requests := requests w @
                 [first_request functions_v2 system_prompt user_question]\<rparr>))
   \<and> (endpoint X (length (requests w)) = Returned response_message
      \<and> tool_calls response_message = Some (tool_call # others)
      \<and> function_name tool_call = ''get_schema''
      \<and> get_schema X
            (w\<lparr>requests := requests w @
                  [first_request functions_v2 system_prompt user_question]\<rparr>)
          = (Returned schema, w2)
      \<and> endpoint X (Suc (length (requests w))) = Returned response_message2
      \<and> tool_calls response_message2 = Some (tool_call2 # others2)
      \<and> function_name tool_call2 \<noteq> ''read_data''
    \<longrightarrow> get_result_v2 X user_question system_prompt w =
          (Returned None,
           w2\<lparr>requests := requests w2 @
                  [second_request system_prompt user_question response_message tool_call
                     (str_schema X schema)]\<rparr>))"
proof (intro conjI impI)
  assume "endpoint X (length (requests w)) = Returned response_message
      \<and> tool_calls response_message = Some (tool_call # others)
      \<and> function_name tool_call \<noteq> ''read_data''"
  then show "get_result_v1 X user_question system_prompt w =
          (Returned None,
           w\<lparr>requests := requests w @
                 [first_request functions_v1 system_prompt user_question]\<rparr>)"
    using get_result_v1_not_read_data [of X w response_message tool_call others] by simp
next
  assume "endpoint X (length (requests w)) = Returned response_message
      \<and> tool_calls response_message = Some (tool_call # others)
      \<and> function_name tool_call \<noteq> ''read_data''
      \<and> function_name tool_call \<noteq> ''get_schema''"
  then show "get_result_v2 X user_question system_prompt w =
          (Returned None,
           w\<lparr>requests := requests w @
                 [first_request functions_v2 system_prompt user_question]\<rparr>)"
    using get_result_v2_not_get_schema [of X w response_message tool_call others] by simp
next
  assume a: "endpoint X (length (requests w)) = Returned response_message
      \<and> tool_calls response_message = Some (tool_call # others)
      \<and> function_name tool_call = ''get_schema''
      \<and> get_schema X
            (w\<lparr>requests := requests w @
                  [first_request functions_v2 system_prompt user_question]\<rparr>)
          = (Returned schema, w2)
      \<and> endpoint X (Suc (length (requests w))) = Returned response_message2
      \<and> tool_calls response_message2 = Some (tool_call2 # others2)
      \<and> function_name tool_call2 \<noteq> ''read_data''"
  then show "get_result_v2 X user_question system_prompt w =
          (Returned None,
           w2\<lparr>requests := requests w2 @
                  [second_request system_prompt user_question response_message tool_call
                     (str_schema X schema)]\<rparr>)"
    using get_result_v2_get_schema
            [of X w response_message tool_call others system_prompt user_question schema w2]
    by (simp add: first_tool_call_def)
qed

theorem C6_unexpected_tool_returns_None_witness:
  "get_result_v1 (demo_externals (always (asks ''get_schema'' ''{}''))) ''Q'' ''SP''
     (demo_world [])
     = (Returned None,
        \<lparr>db = [], next_conn = 0, open_conns = [],
         requests = [first_request functions_v1 ''SP'' ''Q'']\<rparr>)
   \<and> get_result_v2 (demo_externals (always (asks ''drop_table'' ''{}''))) ''Q'' ''SP''
       (demo_world [])
     = (Returned None,
        \<lparr>db = [], next_conn = 0, open_conns = [],
         requests = [first_request functions_v2 ''SP'' ''Q'']\<rparr>)
   \<and> get_result_v2 (demo_externals (always (asks ''get_schema'' ''{}''))) ''Q'' ''SP''
       (demo_world [(''T'', [''a''])])
     = (Returned None,
        \<lparr>db = [(''T'', [''a''])], next_conn = 1, open_conns = [0],
         requests = [first_request functions_v2 ''SP'' ''Q'',
                     second_request ''SP'' ''Q'' (asks ''get_schema'' ''{}'')
                       \<lparr>call_id = ''call_1'', function_name = ''get_schema'',
                         function_arguments = ''{}''\<rparr> ''T: a ; '']\<rparr>)"
proof -
  let ?tc = "\<lparr>call_id = ''call_1'', function_name = ''get_schema'',
               function_arguments = ''{}''\<rparr>"
  let ?td = "\<lparr>call_id = ''call_1'', function_name = ''drop_table'',
               function_arguments = ''{}''\<rparr>"
  let ?w1 = "\<lparr>db = [(''T'', [''a''])], next_conn = 1, open_conns = [0],
               requests = [first_request functions_v2 ''SP'' ''Q'']\<rparr>"
  have p1: "get_result_v1 (demo_externals (always (asks ''get_schema'' ''{}''))) ''Q'' ''SP''
     (demo_world [])
     = (Returned None,
        \<lparr>db = [], next_conn = 0, open_conns = [],
         requests = [first_request functions_v1 ''SP'' ''Q'']\<rparr>)"
    using C6_unexpected_tool_returns_None
            [of "demo_externals (always (asks ''get_schema'' ''{}''))" "demo_world []"
                "asks ''get_schema'' ''{}''" ?tc "[]" "''Q''" "''SP''"]
    by (simp add: demo_defs)
  have p2: "get_result_v2 (demo_externals (always (asks ''drop_table'' ''{}''))) ''Q'' ''SP''
       (demo_world [])
     = (Returned None,
        \<lparr>db = [], next_conn = 0, open_conns = [],
         requests = [first_request functions_v2 ''SP'' ''Q'']\<rparr>)"
    using C6_unexpected_tool_returns_None
            [of "demo_externals (always (asks ''drop_table'' ''{}''))" "demo_world []"
                "asks ''drop_table'' ''{}''" ?td "[]" "''Q''" "''SP''"]
    by (simp add: demo_defs)
  have p3: "get_result_v2 (demo_externals (always (asks ''get_schema'' ''{}''))) ''Q'' ''SP''
       (demo_world [(''T'', [''a''])])
     = (Returned None,
        \<lparr>db = [(''T'', [''a''])], next_conn = 1, open_conns = [0],
         requests = [first_request functions_v2 ''SP'' ''Q'',
                     second_request ''SP'' ''Q'' (asks ''get_schema'' ''{}'') ?tc ''T: a ; '']\<rparr>)"
    using C6_unexpected_tool_returns_None
            [of "demo_externals (always (asks ''get_schema'' ''{}''))"
                "demo_world [(''T'', [''a''])]"
                "asks ''get_schema'' ''{}''" ?tc "[]" "''Q''" "''SP''"
                "[(''T'', [''a''])]" ?w1 "asks ''get_schema'' ''{}''" ?tc "[]"]
    by (simp add: demo_defs get_schema_def connect_def)
  from p1 p2 p3 show ?thesis by simp
qed

text \<open>
  The claim as it was stated has the failure surface to the caller; on a response that
  asks for \<^verbatim>\<open>get_schema\<close>, \<^verbatim>\<open>get_result_v1\<close> returns normally, with \<^verbatim>\<open>None\<close>.
\<close>

theorem C6_unexpected_tool_counterexample:
  "fst (get_result_v1 (demo_externals (always (asks ''get_schema'' ''{}''))) ''Q'' ''SP''
          (demo_world [])) = Returned None"
  by (simp add: run_defs demo_defs)

subsection \<open>The first response of the two-pass run asks for the query tool\<close>

text \<open>
  Claim C1, as amended. When the first tool-invocation request of the first response
  names \<^verbatim>\<open>read_data\<close>, \<^verbatim>\<open>get_result_v2\<close> makes no second model call, and it runs no
  query either: the only branch of its dispatch is the one for \<^verbatim>\<open>get_schema\<close>, so the
  run returns \<^verbatim>\<open>None\<close> and leaves the database and the connections as they were.
\<close>

theorem C1_get_result_v2_read_data_first_returns_None:
  assumes "endpoint X (length (requests w)) = Returned response_message"
    and "tool_calls response_message = Some (tool_call # others)"
    and "function_name tool_call = ''read_data''"
  shows "get_result_v2 X user_question system_prompt w =
           (Returned None,
            w\<lparr>requests := requests w @ [first_request functions_v2 system_prompt user_question]\<rparr>)"
  using assms get_result_v2_not_get_schema [of X w response_message tool_call others]
  by simp

theorem C1_get_result_v2_read_data_first_returns_None_witness:
  "get_result_v2 (demo_externals (always (asks ''read_data'' (query_args ''SELECT 2''))))
     ''Q'' SYSTEM_PROMPT_v2 (demo_world [])
   = (Returned None,
      \<lparr>db = [], next_conn = 0, open_conns = [],
       requests = [first_request functions_v2 SYSTEM_PROMPT_v2 ''Q'']\<rparr>)"
  using C1_get_result_v2_read_data_first_returns_None
          [of "demo_externals (always (asks ''read_data'' (query_args ''SELECT 2'')))"
              "demo_world []" "asks ''read_data'' (query_args ''SELECT 2'')"
              "\<lparr>call_id = ''call_1'', function_name = ''read_data'',
                function_arguments = query_args ''SELECT 2''\<rparr>" "[]"
              "''Q''" SYSTEM_PROMPT_v2]
  by (simp add: demo_externals_def demo_world_def asks_def always_def)

text \<open>
  The claim as it was stated has the run return the pair obtained by executing the
  request's SQL. On a first response that asks for \<^verbatim>\<open>read_data\<close> with a query the
  engine can run, executing the request would give that pair, and the run returns
  \<^verbatim>\<open>None\<close>.
\<close>

theorem C1_early_read_data_counterexample:
  "fst (call_read_data (demo_externals (always (asks ''read_data'' (query_args ''SELECT 1''))))
          \<lparr>call_id = ''call_1'', function_name = ''read_data'',
            function_arguments = query_args ''SELECT 1''\<rparr> (demo_world []))
     = Returned (Some (PStr ''SELECT 1'', \<lparr>df_columns = [''1''], df_rows = [[CInt 1]]\<rparr>))
   \<and> fst (get_result_v2 (demo_externals (always (asks ''read_data'' (query_args ''SELECT 1''))))
          ''Q'' SYSTEM_PROMPT_v2 (demo_world []))
     = Returned None"
  by (simp add: run_defs demo_defs)

subsection \<open>Which schema the model is shown\<close>

lemma get_result_v1_requests:
  "requests (snd (get_result_v1 X user_question system_prompt w)) =
     requests w @ [first_request functions_v1 system_prompt user_question]"
  by (simp add: get_result_v1_def chat_completions_create_def first_request_def
        call_read_data_requests split: pyres.splits)

text \<open>
  Claim C5, as amended. \<^verbatim>\<open>get_result_v1\<close> reads no schema: whatever the database holds
  when it is called, the system instruction it sends is its argument \<^verbatim>\<open>system_prompt\<close>
  as given (by default the constant \<^verbatim>\<open>SYSTEM_PROMPT_v1\<close>, whose schema text was read
  when the constant was defined). \<^verbatim>\<open>get_result_v2\<close>, when the first response asks for
  \<^verbatim>\<open>get_schema\<close>, sends in its second request the text of the schema read from the
  database as it is during that call.
\<close>

theorem C5_schema_read_when:
  "requests (snd (get_result_v1 X user_question system_prompt w)) =
     requests w @ [first_request functions_v1 system_prompt user_question]
   \<and> (endpoint X (length (requests w)) = Returned response_message
      \<and> tool_calls response_message = Some (tool_call # others)
      \<and> function_name tool_call = ''get_schema''
      \<and> fst (get_schema X w) = Returned schema
    \<longrightarrow> requests (snd (get_result_v2 X user_question system_prompt w)) =
          requests w @
            [first_request functions_v2 system_prompt user_question,
             second_request system_prompt user_question response_message tool_call
               (str_schema X schema)])"
proof (intro conjI impI)
  show "requests (snd (get_result_v1 X user_question system_prompt w)) =
     requests w @ [first_request functions_v1 system_prompt user_question]"
    by (rule get_result_v1_requests)
next
  let ?w1 = "w\<lparr>requests := requests w @
                  [first_request functions_v2 system_prompt user_question]\<rparr>"
  let ?w2 = "snd (get_schema X ?w1)"
  assume a: "endpoint X (length (requests w)) = Returned response_message
      \<and> tool_calls response_message = Some (tool_call # others)
      \<and> function_name tool_call = ''get_schema''
      \<and> fst (get_schema X w) = Returned schema"
  have "fst (get_schema X ?w1) = Returned schema"
    using a get_schema_result_db [of ?w1 w X] by simp
  then have gs: "get_schema X ?w1 = (Returned schema, ?w2)"
    by (simp add: prod_eq_iff)
  have rq: "requests ?w2 = requests w @ [first_request functions_v2 system_prompt user_question]"
    by (simp add: get_schema_requests)
  have "requests (snd (get_result_v2 X user_question system_prompt w)) =
          requests ?w2 @ [second_request system_prompt user_question response_message tool_call
               (str_schema X schema)]"
    using a get_result_v2_get_schema
            [of X w response_message tool_call others system_prompt user_question schema ?w2,
             OF _ _ _ gs]
    by (simp add: call_read_data_requests split: pyres.splits)
  then show "requests (snd (get_result_v2 X user_question system_prompt w)) =
          requests w @
            [first_request functions_v2 system_prompt user_question,
             second_request system_prompt user_question response_message tool_call
               (str_schema X schema)]"
    using rq by simp
qed

theorem C5_schema_read_when_witness:
  "requests (snd (get_result_v1 (demo_externals (always (says ''Hello''))) ''Q'' demo_prompt
                    (demo_world [(''A'', [''x'']), (''B'', [''y''])])))
     = [first_request functions_v1 demo_prompt ''Q'']
   \<and> requests (snd (get_result_v2 (demo_externals (always (asks ''get_schema'' ''{}''))) ''Q''
                      SYSTEM_PROMPT_v2 (demo_world [(''A'', [''x'']), (''B'', [''y''])])))
     = [first_request functions_v2 SYSTEM_PROMPT_v2 ''Q'',
        second_request SYSTEM_PROMPT_v2 ''Q'' (asks ''get_schema'' ''{}'')
          \<lparr>call_id = ''call_1'', function_name = ''get_schema'', function_arguments = ''{}''\<rparr>
          ''A: x ; B: y ; '']"
proof -
  let ?tc = "\<lparr>call_id = ''call_1'', function_name = ''get_schema'',
               function_arguments = ''{}''\<rparr>"
  have p1: "requests (snd (get_result_v1 (demo_externals (always (says ''Hello''))) ''Q''
                    demo_prompt (demo_world [(''A'', [''x'']), (''B'', [''y''])])))
     = [first_request functions_v1 demo_prompt ''Q'']"
    using C5_schema_read_when
            [of "demo_externals (always (says ''Hello''))" "''Q''" demo_prompt
                "demo_world [(''A'', [''x'']), (''B'', [''y''])]"]
    by (simp add: demo_world_def)
  have p2: "requests (snd (get_result_v2 (demo_externals (always (asks ''get_schema'' ''{}'')))
                      ''Q'' SYSTEM_PROMPT_v2 (demo_world [(''A'', [''x'']), (''B'', [''y''])])))
     = [first_request functions_v2 SYSTEM_PROMPT_v2 ''Q'',
        second_request SYSTEM_PROMPT_v2 ''Q'' (asks ''get_schema'' ''{}'') ?tc
          ''A: x ; B: y ; '']"
    using C5_schema_read_when
            [of "demo_externals (always (asks ''get_schema'' ''{}''))" "''Q''" SYSTEM_PROMPT_v2
                "demo_world [(''A'', [''x'']), (''B'', [''y''])]"
                "asks ''get_schema'' ''{}''" ?tc "[]" "[(''A'', [''x'']), (''B'', [''y''])]"]
    by (simp add: demo_defs get_schema_def connect_def)
  from p1 p2 show ?thesis by simp
qed

text \<open>
  The claim as it was stated has every call of \<^verbatim>\<open>get_result_v1\<close> show the schema of
  the database at the time of the call. With the prompt built while the database held
  table A only, a call made when it holds A and B still sends the text with A only.
\<close>

theorem C5_cached_schema_counterexample:
  "fst (SYSTEM_PROMPT_v1 (demo_externals (always (says ''Hello''))) (demo_world [(''A'', [''x''])]))
     = Returned demo_prompt
   \<and> requests (snd (get_result_v1 (demo_externals (always (says ''Hello''))) ''Q'' demo_prompt
                      (demo_world [(''A'', [''x'']), (''B'', [''y''])])))
     = [first_request functions_v1 demo_prompt ''Q'']
   \<and> fst (get_schema (demo_externals (always (says ''Hello'')))
            (demo_world [(''A'', [''x'']), (''B'', [''y''])]))
     = Returned [(''A'', [''x'']), (''B'', [''y''])]
   \<and> fst (SYSTEM_PROMPT_v1 (demo_externals (always (says ''Hello'')))
            (demo_world [(''A'', [''x'']), (''B'', [''y''])]))
     \<noteq> Returned demo_prompt"
  by (simp add: SYSTEM_PROMPT_v1_def run_defs demo_defs demo_prompt_def)

subsection \<open>The evaluation loop\<close>

lemma evaluation_loop_append:
  "evaluation_loop X get_result question (xs @ ys) n w =
     (case evaluation_loop X get_result question xs n w of
        (Returned n', w') \<Rightarrow> evaluation_loop X get_result question ys n' w'
      | (Raised e, w') \<Rightarrow> (Raised e, w'))"
proof (induction xs arbitrary: n w)
  case Nil
  show ?case by simp
next
  case (Cons x xs)
  obtain q query where x: "x = (q, query)" by (cases x)
  show ?case
    by (simp add: x Cons.IH split: prod.splits pyres.splits)
qed

text \<open>
  Claim C2, as amended. \<^verbatim>\<open>read_data(query)\<close> on the reference SQL stands before the
  \<^verbatim>\<open>try\<close>. When the cases before have been processed and the reference SQL of a case
  raises, the error leaves the loop: the case adds nothing to the counter, the cases
  after it are not processed (the world is the one the failed query left), and no count
  is reported.
\<close>

theorem C2_reference_sql_error_aborts:
  assumes "evaluation_loop X get_result question before 0 w = (Returned n, w1)"
    and "read_data X (PStr query) w1 = (Raised e, w2)"
  shows "evaluation X get_result question (before @ (q, query) # after) w = (Raised e, w2)"
  using assms by (simp add: evaluation_def evaluation_loop_append)

theorem C2_reference_sql_error_aborts_witness:
  "evaluation (demo_externals (always (asks ''read_data'' (query_args ''SELECT 1''))))
     (\<lambda>user_question. get_result_v1
         (demo_externals (always (asks ''read_data'' (query_args ''SELECT 1''))))
         user_question ''SP'')
     ''G'' ([(''Q1'', ''SELECT 1'')] @ (''Q2'', ''SELEKT 1'') # [(''Q3'', ''SELECT 1'')])
     (demo_world [])
   = (Raised DatabaseError,
      \<lparr>db = [], next_conn = 3, open_conns = [2],
       requests = [first_request functions_v1 ''SP'' ''G'']\<rparr>)"
proof -
  let ?X = "demo_externals (always (asks ''read_data'' (query_args ''SELECT 1'')))"
  let ?w1 = "\<lparr>db = [], next_conn = 2, open_conns = [],
               requests = [first_request functions_v1 ''SP'' ''G'']\<rparr> :: schema world"
  let ?w2 = "\<lparr>db = [], next_conn = 3, open_conns = [2],
               requests = [first_request functions_v1 ''SP'' ''G'']\<rparr> :: schema world"
  have h1: "evaluation_loop ?X (\<lambda>user_question. get_result_v1 ?X user_question ''SP'') ''G''
              [(''Q1'', ''SELECT 1'')] 0 (demo_world []) = (Returned 1, ?w1)"
    by (simp add: run_defs demo_defs eval_defs)
  have h2: "read_data ?X (PStr ''SELEKT 1'') ?w1 = (Raised DatabaseError, ?w2)"
    by (simp add: run_defs demo_defs)
  show ?thesis
    using C2_reference_sql_error_aborts [OF h1 h2, of "''Q2''" "[(''Q3'', ''SELECT 1'')]"]
    by simp
qed

text \<open>
  The claim as it was stated has the batch go on and report its count. With a first
  case whose reference SQL the engine rejects, the evaluation cell raises.
\<close>

theorem C2_reference_sql_error_counterexample:
  "fst (evaluation_v1 (demo_externals (always (asks ''read_data'' (query_args ''SELECT 1''))))
          ''SP'' ''G'' [(''Q1'', ''SELEKT 1''), (''Q2'', ''SELECT 1'')] (demo_world []))
     = Raised DatabaseError"
  by (simp add: run_defs demo_defs eval_defs)

text \<open>
  Claim C3 on a concrete case: the reference SQL gives the grid with the one value 1,
  the orchestrator returns the grid with the one value 2, the comparison evaluates to
  \<^verbatim>\<open>False\<close>, and the evaluation cell reports one correct response out of one.
\<close>

theorem C3_count_ignores_comparison:
  "fst (read_data (demo_externals (always (asks ''read_data'' (query_args ''SELECT 2''))))
          (PStr ''SELECT 1'') (demo_world []))
     = Returned \<lparr>df_columns = [''1''], df_rows = [[CInt 1]]\<rparr>
   \<and> fst (get_result_v1 (demo_externals (always (asks ''read_data'' (query_args ''SELECT 2''))))
            ''G'' ''SP'' (demo_world []))
     = Returned (Some (PStr ''SELECT 2'', \<lparr>df_columns = [''2''], df_rows = [[CInt 2]]\<rparr>))
   \<and> eq_all (to_numpy \<lparr>df_columns = [''1''], df_rows = [[CInt 1]]\<rparr>)
            (to_numpy \<lparr>df_columns = [''2''], df_rows = [[CInt 2]]\<rparr>)
     = Returned False
   \<and> fst (evaluation_v1 (demo_externals (always (asks ''read_data'' (query_args ''SELECT 2''))))
            ''SP'' ''G'' [(''Q1'', ''SELECT 1'')] (demo_world []))
     = Returned (1, 1)"
  by (simp add: run_defs demo_defs eval_defs)

text \<open>
  Claim C4 on a concrete batch: two cases with the questions Q1 and Q2, while the
  notebook's variable \<^verbatim>\<open>question\<close> holds G. In both evaluation cells the user message
  of every request sent is G.
\<close>

theorem C4_question_of_the_case_not_used:
  "map req_messages
     (requests (snd (evaluation_v1
        (demo_externals (always (asks ''read_data'' (query_args ''SELECT 1''))))
        ''SP'' ''G'' [(''Q1'', ''SELECT 1''), (''Q2'', ''SELECT 1'')] (demo_world []))))
     = [[RoleContent ''system'' ''SP'', RoleContent ''user'' ''G''],
        [RoleContent ''system'' ''SP'', RoleContent ''user'' ''G'']]
   \<and> map req_messages
     (requests (snd (evaluation_v2
        (demo_externals (always (asks ''read_data'' (query_args ''SELECT 1''))))
        ''G'' [(''Q1'', ''SELECT 1''), (''Q2'', ''SELECT 1'')] (demo_world []))))
     = [[RoleContent ''system'' SYSTEM_PROMPT_v2, RoleContent ''user'' ''G''],
        [RoleContent ''system'' SYSTEM_PROMPT_v2, RoleContent ''user'' ''G'']]"
  by (simp add: run_defs demo_defs eval_defs)

subsection \<open>Connections\<close>

text \<open>
  Claim C7 on a concrete database: after \<^verbatim>\<open>get_schema\<close> has returned the schema, the
  connection it opened (number 0) is still among the open ones; after \<^verbatim>\<open>read_data\<close>
  has returned its frame, none is.
\<close>

theorem C7_get_schema_leaves_connection_open:
  "get_schema (demo_externals (always (says ''Hello''))) (demo_world [(''T'', [''a''])])
     = (Returned [(''T'', [''a''])],
        \<lparr>db = [(''T'', [''a''])], next_conn = 1, open_conns = [0], requests = []\<rparr>)
   \<and> read_data (demo_externals (always (says ''Hello''))) (PStr ''SELECT 1'')
       (demo_world [(''T'', [''a''])])
     = (Returned \<lparr>df_columns = [''1''], df_rows = [[CInt 1]]\<rparr>,
        \<lparr>db = [(''T'', [''a''])], next_conn = 1, open_conns = [], requests = []\<rparr>)"
  by (simp add: run_defs demo_defs)

subsection \<open>Tool calls after the first\<close>

lemma first_tool_call_first_only:
  "first_tool_call (first_only response_message) = first_tool_call response_message"
  by (simp add: first_tool_call_def first_only_def split: option.splits list.splits)

lemma first_only_endpoint_fields:
  "json_loads (first_only_endpoint X) = json_loads X"
  "sqlite3_connect (first_only_endpoint X) = sqlite3_connect X"
  "select_tables (first_only_endpoint X) = select_tables X"
  "table_info (first_only_endpoint X) = table_info X"
  "read_sql_query (first_only_endpoint X) = read_sql_query X"
  "str_schema (first_only_endpoint X) = str_schema X"
  by (simp_all add: first_only_endpoint_def)

lemma read_data_first_only_endpoint:
  "read_data (first_only_endpoint X) = read_data X"
  by (simp add: fun_eq_iff read_data_def first_only_endpoint_fields
        cong: option.case_cong prod.case_cong)

lemma get_schema_tables_first_only_endpoint:
  "get_schema_tables (first_only_endpoint X) d tables schema = get_schema_tables X d tables schema"
  by (induction tables arbitrary: schema)
     (simp_all add: first_only_endpoint_fields cong: pyres.case_cong)

lemma get_schema_first_only_endpoint:
  "get_schema (first_only_endpoint X) = get_schema X"
  by (simp add: fun_eq_iff get_schema_def first_only_endpoint_fields
        get_schema_tables_first_only_endpoint
        cong: option.case_cong prod.case_cong pyres.case_cong)

lemma call_read_data_first_only_endpoint:
  "call_read_data (first_only_endpoint X) = call_read_data X"
  by (simp add: fun_eq_iff call_read_data_def first_only_endpoint_fields
        read_data_first_only_endpoint cong: pyres.case_cong)

lemma get_schema_effects:
  assumes "effects w' = effects w"
  shows "fst (get_schema X w') = fst (get_schema X w)"
    and "effects (snd (get_schema X w')) = effects (snd (get_schema X w))"
  using assms
  by (simp_all add: get_schema_def connect_def effects_def split: option.splits pyres.splits)

lemma read_data_effects:
  assumes "effects w' = effects w"
  shows "fst (read_data X query w') = fst (read_data X query w)"
    and "effects (snd (read_data X query w')) = effects (snd (read_data X query w))"
  using assms
  by (simp_all add: read_data_def connect_def close_def effects_def
        split: option.splits pyres.splits prod.splits)

lemma call_read_data_effects:
  assumes "effects w' = effects w"
  shows "fst (call_read_data X tool_call w') = fst (call_read_data X tool_call w)"
    and "effects (snd (call_read_data X tool_call w')) = effects (snd (call_read_data X tool_call w))"
proof -
  have "fst (case read_data X q w' of (Raised e, w1) \<Rightarrow> (Raised e, w1)
          | (Returned df, w1) \<Rightarrow> (Returned (Some (q, df)), w1))
        = fst (case read_data X q w of (Raised e, w1) \<Rightarrow> (Raised e, w1)
          | (Returned df, w1) \<Rightarrow> (Returned (Some (q, df)), w1))
      \<and> effects (snd (case read_data X q w' of (Raised e, w1) \<Rightarrow> (Raised e, w1)
          | (Returned df, w1) \<Rightarrow> (Returned (Some (q, df)), w1)))
        = effects (snd (case read_data X q w of (Raised e, w1) \<Rightarrow> (Raised e, w1)
          | (Returned df, w1) \<Rightarrow> (Returned (Some (q, df)), w1)))" for q
    using read_data_effects [OF assms, of X q]
    by (cases "read_data X q w'"; cases "read_data X q w") (auto split: pyres.splits)
  then show "fst (call_read_data X tool_call w') = fst (call_read_data X tool_call w)"
    and "effects (snd (call_read_data X tool_call w')) = effects (snd (call_read_data X tool_call w))"
    using assms by (simp_all add: call_read_data_def split: pyres.splits)
qed

lemma get_result_v1_first_only:
  "get_result_v1 (first_only_endpoint X) user_question system_prompt w =
     get_result_v1 X user_question system_prompt w"
proof (cases "endpoint X (length (requests w))")
  case (Returned response_message)
  then have "endpoint (first_only_endpoint X) (length (requests w)) =
               Returned (first_only response_message)"
    by (simp add: first_only_endpoint_def)
  with Returned show ?thesis
    by (simp add: get_result_v1_def chat_completions_create_def first_tool_call_first_only
          call_read_data_first_only_endpoint split: pyres.splits)
next
  case (Raised e)
  then have "endpoint (first_only_endpoint X) (length (requests w)) = Raised e"
    by (simp add: first_only_endpoint_def)
  with Raised show ?thesis
    by (simp add: get_result_v1_def chat_completions_create_def)
qed

lemma endpoint_first_only_endpoint:
  "endpoint (first_only_endpoint X) n =
     (case endpoint X n of Returned response_message \<Rightarrow> Returned (first_only response_message)
        | Raised e \<Rightarrow> Raised e)"
  by (simp add: first_only_endpoint_def)

text \<open>The second half of the two-pass run, from two worlds with the same effects.\<close>

lemma get_result_v2_second_first_only:
  assumes "effects w' = effects w"
  shows "fst (get_result_v2_second (first_only_endpoint X) messages' tool_call' w') =
           fst (get_result_v2_second X messages tool_call w)
         \<and> effects (snd (get_result_v2_second (first_only_endpoint X) messages' tool_call' w')) =
           effects (snd (get_result_v2_second X messages tool_call w))"
proof (cases "get_schema X w")
  case (Pair r w1)
  obtain r' w1' where p': "get_schema X w' = (r', w1')" by (cases "get_schema X w'")
  have rr: "r' = r" and ee: "effects w1' = effects w1"
    using get_schema_effects [OF assms, of X] Pair p' by simp_all
  show ?thesis
  proof (cases r)
    case (Raised e)
    with Pair p' rr ee show ?thesis
      by (simp add: get_result_v2_second_def get_schema_first_only_endpoint)
  next
    case (Returned schema)
    have len: "length (requests w1') = length (requests w1)"
      using ee by (simp add: effects_def)
    show ?thesis
    proof (cases "endpoint X (length (requests w1))")
      case (Raised e)
      with Pair p' rr ee Returned len show ?thesis
        by (simp add: get_result_v2_second_def chat_completions_create_def
              endpoint_first_only_endpoint effects_def get_schema_first_only_endpoint)
    next
      case rm: (Returned response_message)
      let ?v' = "w1'\<lparr>requests := requests w1' @
                   [\<lparr>req_model = ''gpt-3.5-turbo-0125'', req_temperature = 0,
                     req_tools = functions_v2,
                     req_messages = messages' @
                       [ToolResult (call_id tool_call') ''tool'' (function_name tool_call')
                          (str_schema X schema)]\<rparr>]\<rparr>"
      let ?v = "w1\<lparr>requests := requests w1 @
                   [\<lparr>req_model = ''gpt-3.5-turbo-0125'', req_temperature = 0,
                     req_tools = functions_v2,
                     req_messages = messages @
                       [ToolResult (call_id tool_call) ''tool'' (function_name tool_call)
                          (str_schema X schema)]\<rparr>]\<rparr>"
      have ev: "effects ?v' = effects ?v"
        using ee by (simp add: effects_def)
      show ?thesis
        using Pair p' rr Returned len rm ev call_read_data_effects [OF ev, of X]
        by (simp add: get_result_v2_second_def chat_completions_create_def
              endpoint_first_only_endpoint get_schema_first_only_endpoint
              first_only_endpoint_fields first_tool_call_first_only
              call_read_data_first_only_endpoint split: pyres.splits)
    qed
  qed
qed

text \<open>What a dispatched call does, in terms of the engine.\<close>

lemma call_read_data_runs_query:
  assumes "json_loads X (function_arguments tool_call) = Returned (PDict items)"
    and "map_of items ''query'' = Some sql_query"
    and "sqlite3_connect X (db w) = None"
    and "read_sql_query X (db w) sql_query = (Returned df, d)"
  shows "call_read_data X tool_call w =
           (Returned (Some (sql_query, df)),
            w\<lparr>db := d, next_conn := Suc (next_conn w),
              open_conns := removeAll (next_conn w) (open_conns w @ [next_conn w])\<rparr>)"
  using assms
  by (simp add: call_read_data_def subscript_query_def read_data_def connect_def close_def)

lemma get_schema_reads_tables:
  assumes "sqlite3_connect X (db w) = None"
    and "select_tables X (db w) = Returned tables"
  shows "get_schema X w =
           (get_schema_tables X (db w) tables [],
            w\<lparr>next_conn := Suc (next_conn w), open_conns := open_conns w @ [next_conn w]\<rparr>)"
  using assms by (simp add: get_schema_def connect_def)

text \<open>
  Claim C9. In both orchestrators the first tool-invocation request of a response is
  the one acted upon, and the requests after it are never dispatched.
  \<^item> When the first request of the response to \<^verbatim>\<open>get_result_v1\<close> names \<^verbatim>\<open>read_data\<close>,
    the run executes the query of that request and returns it with the frame the
    engine gave; one connection has been opened and closed, whatever the other
    requests of the response are.
  \<^item> When the first request of the first response to \<^verbatim>\<open>get_result_v2\<close> names
    \<^verbatim>\<open>get_schema\<close> and the first request of the second response names \<^verbatim>\<open>read_data\<close>,
    the run reads the schema, sends it back, executes the query of that second request
    and returns it with its frame; one connection each has been opened for the schema
    and for the query, whatever the other requests of the two responses are.
  \<^item> In every run, cutting each response of the endpoint down to its first request
    changes neither the value returned nor the database, the connections or the number
    of requests sent. (The endpoint's answers are taken as they come, one per request:
    the second request of \<^verbatim>\<open>get_result_v2\<close> quotes the first response in full, and
    what the model makes of that is not the orchestrator's doing.)
\<close>

theorem C9_only_first_tool_call_acted_upon:
  "get_result_v1 (first_only_endpoint X) user_question system_prompt w =
     get_result_v1 X user_question system_prompt w
   \<and> fst (get_result_v2 (first_only_endpoint X) user_question system_prompt w) =
     fst (get_result_v2 X user_question system_prompt w)
   \<and> effects (snd (get_result_v2 (first_only_endpoint X) user_question system_prompt w)) =
     effects (snd (get_result_v2 X user_question system_prompt w))
   \<and> (endpoint X (length (requests w)) = Returned response_message
      \<and> tool_calls response_message = Some (tool_call # others)
      \<and> function_name tool_call = ''read_data''
      \<and> json_loads X (function_arguments tool_call) = Returned (PDict items)
      \<and> map_of items ''query'' = Some sql_query
      \<and> sqlite3_connect X (db w) = None
      \<and> read_sql_query X (db w) sql_query = (Returned df, d)
    \<longrightarrow> get_result_v1 X user_question system_prompt w =
          (Returned (Some (sql_query, df)),
           w\<lparr>db := d, next_conn := Suc (next_conn w),
             open_conns := removeAll (next_conn w) (open_conns w @ [next_conn w]),
             requests := requests w @
               [first_request functions_v1 system_prompt user_question]\<rparr>))
   \<and> (endpoint X (length (requests w)) = Returned response_message
      \<and> tool_calls response_message = Some (tool_call # others)
      \<and> function_name tool_call = ''get_schema''
      \<and> sqlite3_connect X (db w) = None
      \<and> select_tables X (db w) = Returned tables
      \<and> get_schema_tables X (db w) tables [] = Returned schema
      \<and> endpoint X (Suc (length (requests w))) = Returned second_response
      \<and> tool_calls second_response = Some (second_tool_call # second_others)
      \<and> function_name second_tool_call = ''read_data''
      \<and> json_loads X (function_arguments second_tool_call) = Returned (PDict items)
      \<and> map_of items ''query'' = Some sql_query
      \<and> read_sql_query X (db w) sql_query = (Returned df, d)
    \<longrightarrow> get_result_v2 X user_question system_prompt w =
          (Returned (Some (sql_query, df)),
           w\<lparr>db := d, next_conn := Suc (Suc (next_conn w)),
             open_conns := removeAll (Suc (next_conn w))
                             (open_conns w @ [next_conn w, Suc (next_conn w)]),
             requests := requests w @
               [first_request functions_v2 system_prompt user_question,
                second_request system_prompt user_question response_message tool_call
                  (str_schema X schema)]\<rparr>))"
proof -
  let ?w1 = "w\<lparr>requests := requests w @
                  [\<lparr>req_model = ''gpt-3.5-turbo-0125'', req_temperature = 0,
                    req_tools = functions_v2,
                    req_messages = [RoleContent ''system'' system_prompt,
                                    RoleContent ''user'' user_question]\<rparr>]\<rparr>"
  have v2: "fst (get_result_v2 (first_only_endpoint X) user_question system_prompt w) =
              fst (get_result_v2 X user_question system_prompt w)
        \<and> effects (snd (get_result_v2 (first_only_endpoint X) user_question system_prompt w)) =
              effects (snd (get_result_v2 X user_question system_prompt w))"
  proof (cases "endpoint X (length (requests w))")
    case (Raised e)
    then show ?thesis
      by (simp add: get_result_v2_def chat_completions_create_def endpoint_first_only_endpoint)
  next
    case (Returned response_message)
    have "effects ?w1 = effects ?w1" by simp
    from get_result_v2_second_first_only [OF this] Returned show ?thesis
      by (simp add: get_result_v2_def chat_completions_create_def endpoint_first_only_endpoint
            first_tool_call_first_only split: pyres.splits)
  qed
  have d1: "endpoint X (length (requests w)) = Returned response_message
      \<and> tool_calls response_message = Some (tool_call # others)
      \<and> function_name tool_call = ''read_data''
      \<and> json_loads X (function_arguments tool_call) = Returned (PDict items)
      \<and> map_of items ''query'' = Some sql_query
      \<and> sqlite3_connect X (db w) = None
      \<and> read_sql_query X (db w) sql_query = (Returned df, d)
    \<longrightarrow> get_result_v1 X user_question system_prompt w =
          (Returned (Some (sql_query, df)),
           w\<lparr>db := d, next_conn := Suc (next_conn w),
             open_conns := removeAll (next_conn w) (open_conns w @ [next_conn w]),
             requests := requests w @
               [first_request functions_v1 system_prompt user_question]\<rparr>)"
  proof
    assume a: "endpoint X (length (requests w)) = Returned response_message
      \<and> tool_calls response_message = Some (tool_call # others)
      \<and> function_name tool_call = ''read_data''
      \<and> json_loads X (function_arguments tool_call) = Returned (PDict items)
      \<and> map_of items ''query'' = Some sql_query
      \<and> sqlite3_connect X (db w) = None
      \<and> read_sql_query X (db w) sql_query = (Returned df, d)"
    let ?v = "w\<lparr>requests := requests w @
                   [first_request functions_v1 system_prompt user_question]\<rparr>"
    have run: "get_result_v1 X user_question system_prompt w = call_read_data X tool_call ?v"
      using a
      by (simp add: get_result_v1_def chat_completions_create_def first_tool_call_def
            first_request_def)
    have "call_read_data X tool_call ?v =
            (Returned (Some (sql_query, df)),
             ?v\<lparr>db := d, next_conn := Suc (next_conn ?v),
                open_conns := removeAll (next_conn ?v) (open_conns ?v @ [next_conn ?v])\<rparr>)"
      using a by (intro call_read_data_runs_query [of X tool_call items sql_query ?v df d]) simp_all
    with run show "get_result_v1 X user_question system_prompt w =
          (Returned (Some (sql_query, df)),
           w\<lparr>db := d, next_conn := Suc (next_conn w),
             open_conns := removeAll (next_conn w) (open_conns w @ [next_conn w]),
             requests := requests w @
               [first_request functions_v1 system_prompt user_question]\<rparr>)"
      by simp
  qed
  have d2: "endpoint X (length (requests w)) = Returned response_message
      \<and> tool_calls response_message = Some (tool_call # others)
      \<and> function_name tool_call = ''get_schema''
      \<and> sqlite3_connect X (db w) = None
      \<and> select_tables X (db w) = Returned tables
      \<and> get_schema_tables X (db w) tables [] = Returned schema
      \<and> endpoint X (Suc (length (requests w))) = Returned second_response
      \<and> tool_calls second_response = Some (second_tool_call # second_others)
      \<and> function_name second_tool_call = ''read_data''
      \<and> json_loads X (function_arguments second_tool_call) = Returned (PDict items)
      \<and> map_of items ''query'' = Some sql_query
      \<and> read_sql_query X (db w) sql_query = (Returned df, d)
    \<longrightarrow> get_result_v2 X user_question system_prompt w =
          (Returned (Some (sql_query, df)),
           w\<lparr>db := d, next_conn := Suc (Suc (next_conn w)),
             open_conns := removeAll (Suc (next_conn w))
                             (open_conns w @ [next_conn w, Suc (next_conn w)]),
             requests := requests w @
               [first_request functions_v2 system_prompt user_question,
                second_request system_prompt user_question response_message tool_call
                  (str_schema X schema)]\<rparr>)"
  proof
    assume a: "endpoint X (length (requests w)) = Returned response_message
      \<and> tool_calls response_message = Some (tool_call # others)
      \<and> function_name tool_call = ''get_schema''
      \<and> sqlite3_connect X (db w) = None
      \<and> select_tables X (db w) = Returned tables
      \<and> get_schema_tables X (db w) tables [] = Returned schema
      \<and> endpoint X (Suc (length (requests w))) = Returned second_response
      \<and> tool_calls second_response = Some (second_tool_call # second_others)
      \<and> function_name second_tool_call = ''read_data''
      \<and> json_loads X (function_arguments second_tool_call) = Returned (PDict items)
      \<and> map_of items ''query'' = Some sql_query
      \<and> read_sql_query X (db w) sql_query = (Returned df, d)"
    let ?u1 = "w\<lparr>requests := requests w @
                    [first_request functions_v2 system_prompt user_question]\<rparr>"
    let ?u2 = "?u1\<lparr>next_conn := Suc (next_conn ?u1),
                 open_conns := open_conns ?u1 @ [next_conn ?u1]\<rparr>"
    let ?u3 = "?u2\<lparr>requests := requests ?u2 @
                   [second_request system_prompt user_question response_message tool_call
                      (str_schema X schema)]\<rparr>"
    have gs: "get_schema X ?u1 = (Returned schema, ?u2)"
      using a get_schema_reads_tables [of X ?u1 tables] by simp
    have run: "get_result_v2 X user_question system_prompt w = call_read_data X second_tool_call ?u3"
      using a get_result_v2_get_schema
              [of X w response_message tool_call others system_prompt user_question schema ?u2,
               OF _ _ _ gs]
      by (simp add: first_tool_call_def)
    have "call_read_data X second_tool_call ?u3 =
            (Returned (Some (sql_query, df)),
             ?u3\<lparr>db := d, next_conn := Suc (next_conn ?u3),
                 open_conns := removeAll (next_conn ?u3) (open_conns ?u3 @ [next_conn ?u3])\<rparr>)"
      using a by (intro call_read_data_runs_query [of X second_tool_call items sql_query ?u3 df d]) simp_all
    with run show "get_result_v2 X user_question system_prompt w =
          (Returned (Some (sql_query, df)),
           w\<lparr>db := d, next_conn := Suc (Suc (next_conn w)),
             open_conns := removeAll (Suc (next_conn w))
                             (open_conns w @ [next_conn w, Suc (next_conn w)]),
             requests := requests w @
               [first_request functions_v2 system_prompt user_question,
                second_request system_prompt user_question response_message tool_call
                  (str_schema X schema)]\<rparr>)"
      by simp
  qed
  from get_result_v1_first_only [of X user_question system_prompt w] v2 d1 d2
  show ?thesis by (intro conjI) simp_all
qed


theorem C9_only_first_tool_call_acted_upon_witness:
  "get_result_v1
     (demo_externals (always (asks_both ''read_data'' (query_args ''SELECT 1'')
                                        ''read_data'' (query_args ''SELECT 2''))))
     ''Q'' ''SP'' (demo_world [])
   = (Returned (Some (PStr ''SELECT 1'', \<lparr>df_columns = [''1''], df_rows = [[CInt 1]]\<rparr>)),
      \<lparr>db = [], next_conn = 1, open_conns = [],
       requests = [first_request functions_v1 ''SP'' ''Q'']\<rparr>)
   \<and> get_result_v2
       (demo_externals
          (scripted [asks_both ''get_schema'' ''{}'' ''read_data'' (query_args ''SELECT 2''),
                     asks_both ''read_data'' (query_args ''SELECT 1'') ''get_schema'' ''{}'']))
       ''Q'' ''SP'' (demo_world [(''T'', [''a''])])
   = (Returned (Some (PStr ''SELECT 1'', \<lparr>df_columns = [''1''], df_rows = [[CInt 1]]\<rparr>)),
      \<lparr>db = [(''T'', [''a''])], next_conn = 2, open_conns = [0],
       requests =
         [first_request functions_v2 ''SP'' ''Q'',
          second_request ''SP'' ''Q''
            (asks_both ''get_schema'' ''{}'' ''read_data'' (query_args ''SELECT 2''))
            \<lparr>call_id = ''call_1'', function_name = ''get_schema'', function_arguments = ''{}''\<rparr>
            ''T: a ; '']\<rparr>)"
proof -
  let ?r1 = "asks_both ''read_data'' (query_args ''SELECT 1'') ''read_data'' (query_args ''SELECT 2'')"
  let ?s1 = "asks_both ''get_schema'' ''{}'' ''read_data'' (query_args ''SELECT 2'')"
  let ?s2 = "asks_both ''read_data'' (query_args ''SELECT 1'') ''get_schema'' ''{}''"
  let ?read1 = "\<lparr>call_id = ''call_1'', function_name = ''read_data'',
                 function_arguments = query_args ''SELECT 1''\<rparr>"
  let ?read2 = "\<lparr>call_id = ''call_2'', function_name = ''read_data'',
                 function_arguments = query_args ''SELECT 2''\<rparr>"
  let ?schema1 = "\<lparr>call_id = ''call_1'', function_name = ''get_schema'',
                   function_arguments = ''{}''\<rparr>"
  let ?schema2 = "\<lparr>call_id = ''call_2'', function_name = ''get_schema'',
                   function_arguments = ''{}''\<rparr>"
  let ?df = "\<lparr>df_columns = [''1''], df_rows = [[CInt 1]]\<rparr>"
  have p1: "get_result_v1 (demo_externals (always ?r1)) ''Q'' ''SP'' (demo_world [])
     = (Returned (Some (PStr ''SELECT 1'', ?df)),
        \<lparr>db = [], next_conn = 1, open_conns = [],
         requests = [first_request functions_v1 ''SP'' ''Q'']\<rparr>)"
    using C9_only_first_tool_call_acted_upon
            [where X = "demo_externals (always ?r1)" and w = "demo_world []"
               and user_question = "''Q''" and system_prompt = "''SP''"
               and response_message = ?r1 and tool_call = ?read1 and others = "[?read2]"
               and items = "[(''query'', PStr ''SELECT 1'')]" and sql_query = "PStr ''SELECT 1''"
               and df = ?df and d = "[]"]
    by (simp add: demo_defs asks_both_def)
  have p2: "get_result_v2 (demo_externals (scripted [?s1, ?s2])) ''Q'' ''SP''
       (demo_world [(''T'', [''a''])])
     = (Returned (Some (PStr ''SELECT 1'', ?df)),
        \<lparr>db = [(''T'', [''a''])], next_conn = 2, open_conns = [0],
         requests =
           [first_request functions_v2 ''SP'' ''Q'',
            second_request ''SP'' ''Q'' ?s1 ?schema1 ''T: a ; '']\<rparr>)"
    using C9_only_first_tool_call_acted_upon
            [where X = "demo_externals (scripted [?s1, ?s2])"
               and w = "demo_world [(''T'', [''a''])]"
               and user_question = "''Q''" and system_prompt = "''SP''"
               and response_message = ?s1 and tool_call = ?schema1 and others = "[?read2]"
               and tables = "[''T'']" and schema = "[(''T'', [''a''])]"
               and second_response = ?s2 and second_tool_call = ?read1 and second_others = "[?schema2]"
               and items = "[(''query'', PStr ''SELECT 1'')]" and sql_query = "PStr ''SELECT 1''"
               and df = ?df and d = "[(''T'', [''a''])]"]
    by (simp add: demo_defs asks_both_def)
  from p1 p2 show ?thesis by simp
qed

subsection \<open>The comparison of two results\<close>

text \<open>The conversions of integers to doubles, on small and on large integers.\<close>

lemma bit_length_0: "bit_length 0 = 0"
  by (simp add: bit_length.simps)

lemma bit_length_pos: "0 < n \<Longrightarrow> bit_length n = Suc (bit_length (n div 2))"
  by (subst bit_length.simps) simp

lemma bit_length_small: "bit_length 3 = 2"
  by (simp add: bit_length_pos bit_length_0)

lemma float64_of_int_small: "float64_of_int 3 = 3"
  by (simp add: float64_of_int_def bit_length_small Let_def)

lemma bit_length_big: "bit_length 9007199254740993 = 54"
  by (simp add: bit_length_pos bit_length_0)

lemma float64_of_int_rounds: "float64_of_int 9007199254740993 = 9007199254740992"
  by (simp add: float64_of_int_def bit_length_big Let_def)

lemma int64_meets_float64:
  "eq_all (to_numpy \<lparr>df_columns = [''n''], df_rows = [[CInt 9007199254740993]]\<rparr>)
          (to_numpy \<lparr>df_columns = [''x''], df_rows = [[CReal 9007199254740992]]\<rparr>)
     = Returned True"
  by (simp add: table_defs float64_of_int_rounds)

lemma int_beside_float_column:
  "to_numpy \<lparr>df_columns = [''n'', ''x''],
             df_rows = [[CInt 9007199254740993, CReal (1 / 2)]]\<rparr>
     = \<lparr>nd_dtype = Float64, nd_shape = (1, 2),
        nd_cells = [[CReal 9007199254740992, CReal (1 / 2)]]\<rparr>"
  by (simp add: table_defs float64_of_int_rounds)

lemma lone_null_is_None:
  "eq_all (to_numpy \<lparr>df_columns = [''a''], df_rows = [[CNone]]\<rparr>)
          (to_numpy \<lparr>df_columns = [''b''], df_rows = [[CNone]]\<rparr>)
     = Returned True"
  by (simp add: table_defs)

text \<open>
  Claim C10 on a concrete pair of results: the same column of numbers with a NULL in one
  row, once under the label ReportsTo and once under the label Boss. Both frames are
  as pandas builds them and hold the same cells in the same order; the comparison
  evaluates to \<^verbatim>\<open>False\<close>.
\<close>

theorem C10_null_beside_number_compares_unequal:
  "wf_dataframe (reports_to ''ReportsTo'') \<and> wf_dataframe (reports_to ''Boss'')
   \<and> df_rows (reports_to ''ReportsTo'') = df_rows (reports_to ''Boss'')
   \<and> eq_all (to_numpy (reports_to ''ReportsTo'')) (to_numpy (reports_to ''Boss''))
       = Returned False"
  by (simp add: reports_to_def wf_dataframe_def wf_column_def table_defs)

text \<open>
  Apart from NaN the comparison does what the claim says: it does not look at the
  labels, and two frames with the same cells, none of them NaN, compare equal.
\<close>

lemma cell_eq_refl: "is_object c \<Longrightarrow> cell_eq c c"
  by (cases c) (simp_all add: cell_eq_def)

lemma is_object_as_float: "is_object c \<Longrightarrow> is_object (as_float c)"
  by (cases c) simp_all

lemma bidx_less: "i < n \<Longrightarrow> bidx n i = i"
  by (simp add: bidx_def)

lemma to_numpy_labels:
  "length labels = length (df_columns a) \<Longrightarrow> to_numpy (a\<lparr>df_columns := labels\<rparr>) = to_numpy a"
  by (simp add: to_numpy_def frame_dtype_def)

lemma promote_same: "promote a (nd_dtype a) = a"
  by (auto simp: promote_def)

lemma eq_all_same:
  assumes len: "list_all (\<lambda>r. length r = length (df_columns a)) (df_rows a)"
    and nan: "list_all (list_all is_object) (df_rows a)"
  shows "eq_all (to_numpy a) (to_numpy a) = Returned True"
proof -
  have cell: "cell_eq (entry (to_numpy a) i j) (entry (to_numpy a) i j)"
    if i: "i < length (df_rows a)" and j: "j < length (df_columns a)" for i j
  proof -
    have row: "df_rows a ! i \<in> set (df_rows a)" using i by simp
    then have lj: "j < length (df_rows a ! i)"
      using len j by (simp add: list_all_iff)
    then have "df_rows a ! i ! j \<in> set (df_rows a ! i)" by simp
    with row nan have ob: "is_object (df_rows a ! i ! j)" by (simp add: list_all_iff)
    have "entry (to_numpy a) i j = df_rows a ! i ! j
          \<or> entry (to_numpy a) i j = as_float (df_rows a ! i ! j)"
      using i j lj by (simp add: entry_def to_numpy_def bidx_less)
    with ob is_object_as_float [OF ob] have "is_object (entry (to_numpy a) i j)" by auto
    then show ?thesis by (rule cell_eq_refl)
  qed
  have "list_all (\<lambda>i. list_all (\<lambda>j. cell_eq (entry (to_numpy a) i j) (entry (to_numpy a) i j))
                    [0..<length (df_columns a)]) [0..<length (df_rows a)]"
    using cell by (simp add: list_all_iff)
  then show ?thesis
    by (simp add: eq_all_def broadcast_dim_def promote_same) (simp add: to_numpy_def)
qed

lemma eq_all_same_cells:
  assumes "list_all (\<lambda>r. length r = length (df_columns a)) (df_rows a)"
    and "list_all (list_all is_object) (df_rows a)"
    and "df_rows b = df_rows a"
    and "length (df_columns b) = length (df_columns a)"
  shows "eq_all (to_numpy a) (to_numpy b) = Returned True"
proof -
  have "to_numpy b = to_numpy a"
    using assms(3,4) by (simp add: to_numpy_def frame_dtype_def)
  with eq_all_same [OF assms(1,2)] show ?thesis by simp
qed

end
